theory Spec2Isabelle
  imports Complex_Main "HOL-Library.Multiset"
begin

section \<open>JavaScript values and built-ins the data source relies on\<close>

text \<open>
  The model follows \<^verbatim>\<open>src/datasource_proxy.ts\<close>. Times are integers (milliseconds since
  the epoch, as \<^verbatim>\<open>Date.now()\<close> and \<^verbatim>\<open>getTime()\<close> return them). The location parameters
  of a query are only compared with zero and passed on, and are modelled by rationals; the
  values of a series are JavaScript numbers (\<open>number\<close> below). An optional field that is
  \<^verbatim>\<open>undefined\<close> is \<open>None\<close>. A thrown value or a rejected promise is the left summand of
  a sum type.
\<close>

datatype error = Error string | Rejected string

text \<open>\<^verbatim>\<open>x || d\<close> on an optional string and on an optional number: the empty string,
  zero and \<^verbatim>\<open>undefined\<close> are falsy.\<close>

definition str_or :: "string option \<Rightarrow> string \<Rightarrow> string" where
  "str_or x d = (case x of None \<Rightarrow> d | Some s \<Rightarrow> if s = [] then d else s)"

definition num_or :: "rat option \<Rightarrow> rat \<Rightarrow> rat" where
  "num_or x d = (case x of None \<Rightarrow> d | Some n \<Rightarrow> if n = 0 then d else n)"

text \<open>An optional string interpolated into a template literal.\<close>

definition tpl :: "string option \<Rightarrow> string" where
  "tpl x = (case x of None \<Rightarrow> ''undefined'' | Some s \<Rightarrow> s)"

text \<open>
  The parts of \<^verbatim>\<open>Date\<close> and of number formatting that belong to the JavaScript engine and
  its time zone are parameters of the model:
  \<^item> \<open>date_parse s\<close> is \<^verbatim>\<open>new Date(s).getTime()\<close>, with \<open>None\<close> for \<^verbatim>\<open>NaN\<close>;
  \<^item> \<open>date_plus_days t k\<close> is the instant of \<^verbatim>\<open>d.setDate(d.getDate() + k)\<close> for the date
    \<open>d\<close> at instant \<open>t\<close> (k local calendar days later, same wall-clock time);
  \<^item> \<open>date_start_of_day t\<close> is \<^verbatim>\<open>setHours(0, 0, 0, 0)\<close> and \<open>date_end_of_day t\<close> is
    \<^verbatim>\<open>setHours(23, 59, 59, 999)\<close> on the date at instant \<open>t\<close>;
  \<^item> \<open>num_to_string x\<close> is the string a template literal makes of the number \<open>x\<close>.
\<close>

record js_env =
  date_parse :: "string \<Rightarrow> int option"
  date_plus_days :: "int \<Rightarrow> int \<Rightarrow> int"
  date_start_of_day :: "int \<Rightarrow> int"
  date_end_of_day :: "int \<Rightarrow> int"
  num_to_string :: "rat \<Rightarrow> string"

text \<open>\<^verbatim>\<open>toString()\<close> of an integer-valued number (decimal digits, a minus sign when
  negative).\<close>

definition digit_char :: "nat \<Rightarrow> char" where
  "digit_char d = ''0123456789'' ! d"

fun show_nat :: "nat \<Rightarrow> string" where
  "show_nat n = (if n < 10 then [digit_char n] else show_nat (n div 10) @ [digit_char (n mod 10)])"

definition show_int :: "int \<Rightarrow> string" where
  "show_int i = (if i < 0 then CHR ''-'' # show_nat (nat (- i)) else show_nat (nat i))"

subsection \<open>Numbers\<close>

text \<open>
  A JavaScript number is an IEEE 754 binary64 value: a finite double (given by the rational
  it denotes; the sign of zero is not distinguished), an infinity or \<^verbatim>\<open>NaN\<close>.
  \<open>to_double x\<close> is the double nearest to the rational \<open>x\<close>, ties going to the even
  significand: \<open>x\<close> is rounded to a multiple of \<open>2 ^ (e - 52)\<close>, where \<open>2 ^ e \<le> \<bar>x\<bar> < 2 ^ (e + 1)\<close>
  and \<open>e\<close> is at least \<open>- 1022\<close> (below that the doubles are subnormal), and a result of
  magnitude \<open>2 ^ 1024\<close> is an infinity. It is how a number written in a response is read,
  and how the exact result of an arithmetic operation is rounded.
\<close>

datatype number = Finite rat | PosInf | NegInf | NaN








subsection \<open>Objects as ordered property lists\<close>





text \<open>
  A read \<^verbatim>\<open>o[k]\<close> of a key that is not an own property goes on to \<^verbatim>\<open>Object.prototype\<close>,
  whose properties are these. Each of them is truthy (a function, or for \<^verbatim>\<open>__proto__\<close> the
  prototype itself) and has no enumerable own property, so \<^verbatim>\<open>Object.entries\<close> of it is
  empty.
\<close>

definition Object_prototype_properties :: "string list" where
  "Object_prototype_properties =
     [''constructor'', ''__defineGetter__'', ''__defineSetter__'', ''hasOwnProperty'',
      ''__lookupGetter__'', ''__lookupSetter__'', ''isPrototypeOf'', ''propertyIsEnumerable'',
      ''toString'', ''valueOf'', ''__proto__'', ''toLocaleString'']"


section \<open>Data model\<close>

text \<open>A canonical result maps a metric name to a series; a series maps a time key to
  a number.\<close>

type_synonym series = "(string \<times> number) list"
type_synonym canonical = "(string \<times> series) list"

record SolarLocation =
  loc_id :: string
  loc_name :: string
  loc_latitude :: rat
  loc_longitude :: rat
  loc_declination :: rat
  loc_azimuth :: rat
  loc_kwp :: rat

record MyQuery =
  refId :: string
  metric :: "string option"
  dataType :: "string option"
  locationId :: "string option"
  useCustomLocation :: bool
  latitude :: "rat option"
  longitude :: "rat option"
  declination :: "rat option"
  azimuth :: "rat option"
  kwp :: "rat option"
  solcastSiteId :: "string option"
  startDate :: "string option"
  endDate :: "string option"
  forecastPeriod :: "string option"

text \<open>\<^verbatim>\<open>instanceSettings.jsonData\<close>; an undefined \<^verbatim>\<open>locations\<close> is the empty list.\<close>

record MyDataSourceOptions =
  provider :: "string option"
  locations :: "SolarLocation list"

record cache_entry =
  entry_data :: canonical
  entry_timestamp :: int

text \<open>The two mutable maps of the \<^verbatim>\<open>DataSource\<close> instance.\<close>

record DataSource =
  cache :: "string \<rightharpoonup> cache_entry"
  lastApiCall :: "string \<rightharpoonup> int"

definition CACHE_TTL :: int where
  "CACHE_TTL = 30 * 60 * 1000"

definition MIN_CACHE_TTL :: int where
  "MIN_CACHE_TTL = 10 * 60 * 1000"

text \<open>A row of the data frame holds the time and whatever value the entry had: a number,
  or a whole series when the entries of the canonical result itself are iterated.\<close>

datatype cell = Num number | Obj series

record frame =
  frame_refId :: string
  field_name :: string
  field_unit :: string
  rows :: "(int \<times> cell) list"

section \<open>Timestamp normalizer and time-series assembler\<close>

definition parseTimestamp :: "js_env \<Rightarrow> string \<Rightarrow> int" where
  "parseTimestamp D ts = (case date_parse D ts of None \<Rightarrow> 0 | Some parsed \<Rightarrow> parsed)"

definition getFieldConfig :: "string \<Rightarrow> string \<times> string" where
  "getFieldConfig m =
     (if m = ''watts'' then (''Power (Watts)'', ''watt'')
      else if m = ''watt_hours'' then (''Energy Accumulated (Wh)'', ''watth'')
      else if m = ''watt_hours_period'' then (''Energy per Period (Wh)'', ''watth'')
      else if m = ''watt_hours_day'' then (''Daily Energy Summary (Wh)'', ''watth'')
      else if m = ''history_watthours'' then (''Historical Energy (Wh)'', ''watth'')
      else if m = ''watthours'' then (''Energy (Wh)'', ''watth'')
      else if m = ''watthours_day'' then (''Daily Energy (Wh)'', ''watth'')
      else (''Value'', ''short''))"

text \<open>\<open>today\<close> is the reading of \<^verbatim>\<open>new Date()\<close>.\<close>

definition getTargetDateFromPeriod :: "js_env \<Rightarrow> int \<Rightarrow> string \<Rightarrow> int" where
  "getTargetDateFromPeriod D today p =
     (if p = ''today'' then today
      else if p = ''tomorrow'' then date_plus_days D today 1
      else if p = ''day+2'' then date_plus_days D today 2
      else if p = ''day+3'' then date_plus_days D today 3
      else if p = ''day+4'' then date_plus_days D today 4
      else if p = ''day+5'' then date_plus_days D today 5
      else if p = ''day+6'' then date_plus_days D today 6
      else today)"

definition timeFilter :: "js_env \<Rightarrow> int \<Rightarrow> string \<Rightarrow> string \<Rightarrow> bool" where
  "timeFilter D today p ts =
     (if p = ''all'' then True
      else let targetDate = getTargetDateFromPeriod D today p;
               startOfDay = date_start_of_day D targetDate;
               endOfDay = date_end_of_day D targetDate;
               t = parseTimestamp D ts
           in startOfDay \<le> t \<and> t \<le> endOfDay)"

text \<open>\<^verbatim>\<open>allData[metric] || allData\<close>, as the list of entries that
  \<^verbatim>\<open>Object.entries(selectedData)\<close> yields: the series of the metric when the result has
  one (a series is an object, hence truthy); no entry when the metric names a property the
  result inherits, which is what is selected then; the entries of the result itself
  otherwise.\<close>

definition selectedData :: "canonical \<Rightarrow> string \<Rightarrow> (string \<times> cell) list" where
  "selectedData allData m =
     (case map_of allData m of
        Some s \<Rightarrow> map (\<lambda>(k, v). (k, Num v)) s
      | None \<Rightarrow>
          if m \<in> set Object_prototype_properties then []
          else map (\<lambda>(k, s). (k, Obj s)) allData)"

text \<open>The chain \<^verbatim>\<open>.filter(...).sort(...).forEach(...)\<close>. The sort is stable and its
  comparator is the difference of two normalized timestamps. In the \<^verbatim>\<open>forEach\<close> body the
  test \<^verbatim>\<open>isNaN(timeValue)\<close> is applied to a result of \<open>parseTimestamp\<close>, which is a number
  in every case, so the body adds a row for every entry it is given.\<close>

definition assemble :: "js_env \<Rightarrow> int \<Rightarrow> string \<Rightarrow> (string \<times> cell) list \<Rightarrow> (int \<times> cell) list" where
  "assemble D today p entries =
     map (\<lambda>(ts, v). (parseTimestamp D ts, v))
       (sort_key (\<lambda>(ts, v). parseTimestamp D ts)
          (filter (\<lambda>(ts, v). timeFilter D today p ts) entries))"

definition formatAsTimeSeries :: "js_env \<Rightarrow> int \<Rightarrow> canonical \<Rightarrow> MyQuery \<Rightarrow> frame" where
  "formatAsTimeSeries D today allData q =
     (let m = str_or (metric q) ''watts'';
          p = str_or (forecastPeriod q) ''all'';
          fieldConfig = getFieldConfig m
      in \<lparr>frame_refId = refId q, field_name = fst fieldConfig, field_unit = snd fieldConfig,
          rows = assemble D today p (selectedData allData m)\<rparr>)"

section \<open>Cache and rate gate\<close>

definition getCacheKey ::
  "js_env \<Rightarrow> string \<Rightarrow> rat \<Rightarrow> rat \<Rightarrow> rat \<Rightarrow> rat \<Rightarrow> rat \<Rightarrow> string option \<Rightarrow> string \<Rightarrow> string \<Rightarrow>
     string option \<Rightarrow> string option \<Rightarrow> string option \<Rightarrow> string" where
  "getCacheKey D prov lat lon decl az k site dt m sd ed fp =
     prov @ ''-'' @ num_to_string D lat @ ''-'' @ num_to_string D lon @ ''-'' @
     num_to_string D decl @ ''-'' @ num_to_string D az @ ''-'' @ num_to_string D k @ ''-'' @
     tpl site @ ''-'' @ dt @ ''-'' @ m @ ''-'' @ tpl sd @ ''-'' @ tpl ed @ ''-'' @ tpl fp"

text \<open>\<^verbatim>\<open>CACHE_TTL / 3\<close> is exact (600000), so integer division gives the source's value.\<close>

definition getEffectiveCacheTTL :: "string \<Rightarrow> string \<Rightarrow> int" where
  "getEffectiveCacheTTL prov m =
     (if prov = ''solcast'' then CACHE_TTL
      else if m = ''watt_hours_day'' then CACHE_TTL
      else max MIN_CACHE_TTL (CACHE_TTL div 3))"

definition minIntervalBetweenCalls :: "string \<Rightarrow> int" where
  "minIntervalBetweenCalls prov = (if prov = ''solcast'' then 30 * 60 * 1000 else 5 * 60 * 1000)"

section \<open>Query resolver\<close>

text \<open>The first part of \<^verbatim>\<open>doRequest\<close>: the location of the query, as the tuple
  (latitude, longitude, declination, azimuth, kwp).\<close>

definition resolveLocation ::
  "MyDataSourceOptions \<Rightarrow> MyQuery \<Rightarrow> error + (rat \<times> rat \<times> rat \<times> rat \<times> rat)" where
  "resolveLocation jsonData q =
     (if str_or (locationId q) [] \<noteq> [] \<and> \<not> useCustomLocation q then
        (case find (\<lambda>loc. Some (loc_id loc) = locationId q) (locations jsonData) of
           None \<Rightarrow> Inl (Error (''Location with ID '' @ tpl (locationId q) @
                                '' not found in datasource configuration''))
         | Some selectedLocation \<Rightarrow>
             Inr (loc_latitude selectedLocation, loc_longitude selectedLocation,
                  loc_declination selectedLocation, loc_azimuth selectedLocation,
                  loc_kwp selectedLocation))
      else
        Inr (num_or (latitude q) (5113 / 100), num_or (longitude q) (1042 / 100),
             num_or (declination q) 30, num_or (azimuth q) 180, num_or (kwp q) 5))"

section \<open>The request\<close>

text \<open>
  The two provider adapters are collaborators of \<^verbatim>\<open>doRequest\<close>: each is a function of
  the arguments \<^verbatim>\<open>doRequest\<close> passes and returns the canonical result or the error it
  throws. Every invocation is logged, so that "no fetch was performed" is a statement about
  the log.
\<close>

record fetchers =
  solcast_fetch :: "rat \<Rightarrow> rat \<Rightarrow> string option \<Rightarrow> error + canonical"
  forecast_solar_fetch ::
    "rat \<Rightarrow> rat \<Rightarrow> rat \<Rightarrow> rat \<Rightarrow> rat \<Rightarrow> string \<Rightarrow> string \<Rightarrow> string option \<Rightarrow> string option \<Rightarrow>
       error + canonical"

datatype api_call =
  SolcastCall rat rat "string option"
| ForecastSolarCall rat rat rat rat rat string string "string option" "string option"

fun run_call :: "fetchers \<Rightarrow> api_call \<Rightarrow> error + canonical" where
  "run_call F (SolcastCall lat lon site) = solcast_fetch F lat lon site"
| "run_call F (ForecastSolarCall lat lon decl az k dt m sd ed) =
     forecast_solar_fetch F lat lon decl az k dt m sd ed"

text \<open>The readings of the clock during one request, in the order the code takes them:
  \<^verbatim>\<open>Date.now()\<close> for the cache age, for the time since the last call, for the rate-gate
  timestamp and for the cache entry, and \<^verbatim>\<open>new Date()\<close> in the assembler.\<close>

record clock =
  t_cache_check :: int
  t_rate_check :: int
  t_api_call :: int
  t_cache_store :: int
  t_format :: int

text \<open>The two assignments after a successful fetch.\<close>

record store_write =
  w_provider :: string
  w_call_time :: int
  w_key :: string
  w_entry :: cache_entry

definition apply_write :: "store_write \<Rightarrow> DataSource \<Rightarrow> DataSource" where
  "apply_write w this =
     \<lparr>cache = (cache this)(w_key w \<mapsto> w_entry w),
      lastApiCall = (lastApiCall this)(w_provider w \<mapsto> w_call_time w)\<rparr>"

record outcome =
  out_state :: DataSource
  out_write :: "store_write option"
  out_calls :: "api_call list"
  out_result :: "error + frame"

text \<open>Serving \<open>allData\<close> from the cache: no call, no change of state.\<close>

definition serveCached :: "js_env \<Rightarrow> clock \<Rightarrow> DataSource \<Rightarrow> MyQuery \<Rightarrow> canonical \<Rightarrow> outcome" where
  "serveCached D clk this q allData =
     \<lparr>out_state = this, out_write = None, out_calls = [],
      out_result = Inr (formatAsTimeSeries D (t_format clk) allData q)\<rparr>"

text \<open>The branch "Fetching fresh data from API".\<close>

definition fetchFresh ::
  "js_env \<Rightarrow> fetchers \<Rightarrow> clock \<Rightarrow> DataSource \<Rightarrow> MyQuery \<Rightarrow> string \<Rightarrow> string \<Rightarrow> api_call \<Rightarrow> outcome" where
  "fetchFresh D F clk this q prov cacheKey call =
     (case run_call F call of
        Inl e \<Rightarrow> \<lparr>out_state = this, out_write = None, out_calls = [call], out_result = Inl e\<rparr>
      | Inr allData \<Rightarrow>
          let w = \<lparr>w_provider = prov, w_call_time = t_api_call clk, w_key = cacheKey,
                   w_entry = \<lparr>entry_data = allData, entry_timestamp = t_cache_store clk\<rparr>\<rparr>
          in \<lparr>out_state = apply_write w this, out_write = Some w, out_calls = [call],
              out_result = Inr (formatAsTimeSeries D (t_format clk) allData q)\<rparr>)"

text \<open>The provider dispatch of the fetch branch, as the call it makes.\<close>

definition requestCall ::
  "string \<Rightarrow> rat \<Rightarrow> rat \<Rightarrow> rat \<Rightarrow> rat \<Rightarrow> rat \<Rightarrow> string option \<Rightarrow> string \<Rightarrow> string \<Rightarrow>
     string option \<Rightarrow> string option \<Rightarrow> api_call" where
  "requestCall prov lat lon decl az k site dt m sd ed =
     (if prov = ''solcast'' then SolcastCall lat lon site
      else ForecastSolarCall lat lon decl az k dt m sd ed)"

text \<open>The body of the \<^verbatim>\<open>try\<close> block of \<^verbatim>\<open>doRequest\<close>: cache check, rate gate, fetch, and
  the formatting of whatever data was obtained. An absent rate-gate timestamp reads as 0.\<close>

definition cacheGate ::
  "js_env \<Rightarrow> fetchers \<Rightarrow> clock \<Rightarrow> DataSource \<Rightarrow> MyQuery \<Rightarrow> string \<Rightarrow> string \<Rightarrow> string \<Rightarrow> api_call \<Rightarrow>
     outcome" where
  "cacheGate D F clk this q prov m cacheKey call =
     (let effectiveTTL = getEffectiveCacheTTL prov m;
          lastCall = (case lastApiCall this prov of None \<Rightarrow> 0 | Some t \<Rightarrow> t);
          timeSinceLastCall = t_rate_check clk - lastCall
      in case cache this cacheKey of
           None \<Rightarrow> fetchFresh D F clk this q prov cacheKey call
         | Some cached \<Rightarrow>
             (if t_cache_check clk - entry_timestamp cached < effectiveTTL
              then serveCached D clk this q (entry_data cached)
              else if timeSinceLastCall < minIntervalBetweenCalls prov
              then serveCached D clk this q (entry_data cached)
              else fetchFresh D F clk this q prov cacheKey call))"

definition doRequest ::
  "js_env \<Rightarrow> fetchers \<Rightarrow> MyDataSourceOptions \<Rightarrow> clock \<Rightarrow> DataSource \<Rightarrow> MyQuery \<Rightarrow> outcome" where
  "doRequest D F jsonData clk this q =
     (case resolveLocation jsonData q of
        Inl e \<Rightarrow> \<lparr>out_state = this, out_write = None, out_calls = [], out_result = Inl e\<rparr>
      | Inr (lat, lon, decl, az, k) \<Rightarrow>
          let prov = str_or (provider jsonData) ''forecast.solar'';
              site = solcastSiteId q;
              dt = str_or (dataType q) ''forecast'';
              m = str_or (metric q) ''watts'';
              cacheKey = getCacheKey D prov lat lon decl az k site dt m
                           (startDate q) (endDate q) (forecastPeriod q)
          in cacheGate D F clk this q prov m cacheKey
               (requestCall prov lat lon decl az k site dt m (startDate q) (endDate q)))"

section \<open>The batch entry point\<close>

text \<open>
  \<^verbatim>\<open>query\<close> starts \<^verbatim>\<open>doRequest\<close> for every target and awaits \<^verbatim>\<open>Promise.all\<close>. Each
  \<^verbatim>\<open>doRequest\<close> runs up to its fetch before the next one starts and writes only after its
  fetch has settled, so every target reads the state the batch was entered with. \<open>settle\<close>
  lists the target indices in the order their promises settle (an index it does not list
  settles after the listed ones, in target order). \<^verbatim>\<open>Promise.all\<close> rejects with the first
  rejection in that order and otherwise fulfils with the values in target order. The bounds
  \<^verbatim>\<open>from\<close> and \<^verbatim>\<open>to\<close> of the range are passed on and never read, so they are left out.
\<close>

fun first_rejection :: "nat list \<Rightarrow> (error + 'a) list \<Rightarrow> error option" where
  "first_rejection [] rs = None"
| "first_rejection (i # is) rs =
     (if i < length rs
      then (case rs ! i of Inl e \<Rightarrow> Some e | Inr v \<Rightarrow> first_rejection is rs)
      else first_rejection is rs)"

fun fulfilled :: "(error + 'a) list \<Rightarrow> 'a list" where
  "fulfilled [] = []"
| "fulfilled (Inr v # rs) = v # fulfilled rs"
| "fulfilled (Inl e # rs) = fulfilled rs"

definition promise_all :: "nat list \<Rightarrow> (error + 'a) list \<Rightarrow> error + 'a list" where
  "promise_all order rs =
     (case first_rejection order rs of Some e \<Rightarrow> Inl e | None \<Rightarrow> Inr (fulfilled rs))"

definition settle_order :: "nat list \<Rightarrow> nat \<Rightarrow> nat list" where
  "settle_order settle n = rev (remdups (rev (filter (\<lambda>i. i < n) settle @ [0..<n])))"

definition query ::
  "js_env \<Rightarrow> fetchers \<Rightarrow> MyDataSourceOptions \<Rightarrow> nat list \<Rightarrow> DataSource \<Rightarrow> (clock \<times> MyQuery) list \<Rightarrow>
     DataSource \<times> api_call list \<times> (error + frame list)" where
  "query D F jsonData settle this targets =
     (let outs = map (\<lambda>(clk, target). doRequest D F jsonData clk this target) targets;
          order = settle_order settle (length outs);
          final = fold (\<lambda>i s. case out_write (outs ! i) of None \<Rightarrow> s | Some w \<Rightarrow> apply_write w s)
                    order this
      in (final, concat (map out_calls outs), promise_all order (map out_result outs)))"

section \<open>The alt-provider adapter\<close>







section \<open>Notions used to state the properties\<close>

text \<open>The provider, the metric and the cache key \<^verbatim>\<open>doRequest\<close> computes for a query
  (there is no key when the location does not resolve).\<close>

definition requestProvider :: "MyDataSourceOptions \<Rightarrow> string" where
  "requestProvider jsonData = str_or (provider jsonData) ''forecast.solar''"

definition requestMetric :: "MyQuery \<Rightarrow> string" where
  "requestMetric q = str_or (metric q) ''watts''"

definition requestKey :: "js_env \<Rightarrow> MyDataSourceOptions \<Rightarrow> MyQuery \<Rightarrow> string option" where
  "requestKey D jsonData q =
     (case resolveLocation jsonData q of
        Inl e \<Rightarrow> None
      | Inr (lat, lon, decl, az, k) \<Rightarrow>
          Some (getCacheKey D (requestProvider jsonData) lat lon decl az k (solcastSiteId q)
                  (str_or (dataType q) ''forecast'') (requestMetric q)
                  (startDate q) (endDate q) (forecastPeriod q)))"

text \<open>What each target of a batch resolves to on its own.\<close>

definition target_results ::
  "js_env \<Rightarrow> fetchers \<Rightarrow> MyDataSourceOptions \<Rightarrow> DataSource \<Rightarrow> (clock \<times> MyQuery) list \<Rightarrow>
     (error + frame) list" where
  "target_results D F jsonData this targets =
     map (\<lambda>(clk, target). out_result (doRequest D F jsonData clk this target)) targets"




text \<open>An entry of a selection as the point it stands for.\<close>

definition point_of :: "js_env \<Rightarrow> string \<times> cell \<Rightarrow> int \<times> cell" where
  "point_of D entry = (parseTimestamp D (fst entry), snd entry)"

section \<open>Example inputs\<close>

text \<open>An engine in the UTC zone whose parser knows the strings of the examples, and whose
  number formatting is that of JavaScript on the numbers the examples use.\<close>

definition example_env :: js_env where
  "example_env =
     \<lparr>date_parse = map_of [(''2025-07-06T11:30:00Z'', 1751801400000),
                           (''2025-07-06 10:00:00'', 1751796000000),
                           (''2025-07-06 11:00:00'', 1751799600000),
                           (''2025-07-07 10:00:00'', 1751882400000)],
      date_plus_days = (\<lambda>t k. t + k * 86400000),
      date_start_of_day = (\<lambda>t. t - t mod 86400000),
      date_end_of_day = (\<lambda>t. t - t mod 86400000 + 86399999),
      num_to_string = (\<lambda>x. if x = 5113 / 100 then ''51.13'' else if x = 1042 / 100 then ''10.42''
                            else show_int (floor x))\<rparr>"

definition example_query :: MyQuery where
  "example_query =
     \<lparr>refId = ''A'', metric = None, dataType = None, locationId = None,
      useCustomLocation = False, latitude = None, longitude = None, declination = None,
      azimuth = None, kwp = None, solcastSiteId = None, startDate = None, endDate = None,
      forecastPeriod = None\<rparr>"

definition example_key :: string where
  "example_key =
     ''forecast.solar-51.13-10.42-30-180-5-undefined-forecast-watts-undefined-undefined-undefined''"

definition example_config :: MyDataSourceOptions where
  "example_config = \<lparr>provider = None, locations = []\<rparr>"

definition example_data :: canonical where
  "example_data =
     [(''watts'', [(''2025-07-06 11:00:00'', Finite 700), (''2025-07-06 10:00:00'', Finite 500),
                   (''2025-07-07 10:00:00'', Finite 9)])]"

definition unparseable_data :: canonical where
  "unparseable_data = [(''watts'', [(''not a date'', Finite 5)])]"

text \<open>2025-07-06T11:06:40Z and the instants around it.\<close>

definition example_clock :: clock where
  "example_clock =
     \<lparr>t_cache_check = 1751800000000, t_rate_check = 1751800000001,
      t_api_call = 1751800000900, t_cache_store = 1751800000901, t_format = 1751800000902\<rparr>"

definition empty_state :: DataSource where
  "empty_state = \<lparr>cache = Map.empty, lastApiCall = Map.empty\<rparr>"

text \<open>A state whose entry for \<open>example_key\<close> was fetched 5 minutes before \<open>example_clock\<close>,
  and one whose entry is 40 minutes old while the provider was last called 4 minutes ago.\<close>

definition fresh_state :: DataSource where
  "fresh_state =
     \<lparr>cache = [example_key \<mapsto> \<lparr>entry_data = example_data, entry_timestamp = 1751799700000\<rparr>],
      lastApiCall = [''forecast.solar'' \<mapsto> 1751799700000]\<rparr>"

definition stale_state :: DataSource where
  "stale_state =
     \<lparr>cache = [example_key \<mapsto> \<lparr>entry_data = example_data, entry_timestamp = 1751797600000\<rparr>],
      lastApiCall = [''forecast.solar'' \<mapsto> 1751799760000]\<rparr>"

definition working_fetchers :: fetchers where
  "working_fetchers =
     \<lparr>solcast_fetch = (\<lambda>lat lon site. Inr example_data),
      forecast_solar_fetch = (\<lambda>lat lon decl az k dt m sd ed. Inr example_data)\<rparr>"

definition failing_fetchers :: fetchers where
  "failing_fetchers =
     \<lparr>solcast_fetch = (\<lambda>lat lon site. Inl (Rejected ''429'')),
      forecast_solar_fetch = (\<lambda>lat lon decl az k dt m sd ed. Inl (Rejected ''429''))\<rparr>"



section \<open>The cache and the rate gate\<close>

lemma doRequest_unresolved:
  "resolveLocation jsonData q = Inl e \<Longrightarrow>
   doRequest D F jsonData clk this q =
     \<lparr>out_state = this, out_write = None, out_calls = [], out_result = Inl e\<rparr>"
  by (simp add: doRequest_def)

lemma doRequest_gate:
  assumes "requestKey D jsonData q = Some key"
  shows "\<exists>call. doRequest D F jsonData clk this q =
           cacheGate D F clk this q (requestProvider jsonData) (requestMetric q) key call"
proof (cases "resolveLocation jsonData q")
  case (Inl e)
  with assms show ?thesis by (simp add: requestKey_def)
next
  case (Inr loc)
  obtain lat lon decl az k where loc: "loc = (lat, lon, decl, az, k)"
    by (cases loc) auto
  from assms Inr loc show ?thesis
    unfolding doRequest_def requestKey_def requestProvider_def requestMetric_def Let_def
    by (simp only: sum.case prod.case option.inject) blast
qed

lemma cacheGate_fresh:
  "cache this key = Some e \<Longrightarrow>
   t_cache_check clk - entry_timestamp e < getEffectiveCacheTTL prov m \<Longrightarrow>
   cacheGate D F clk this q prov m key call = serveCached D clk this q (entry_data e)"
  by (simp add: cacheGate_def)

lemma cacheGate_rate_limited:
  "cache this key = Some e \<Longrightarrow> lastApiCall this prov = Some t0 \<Longrightarrow>
   t_rate_check clk - t0 < minIntervalBetweenCalls prov \<Longrightarrow>
   cacheGate D F clk this q prov m key call = serveCached D clk this q (entry_data e)"
  by (simp add: cacheGate_def)

lemma cacheGate_cases:
  "(\<exists>d. cacheGate D F clk this q prov m key call = serveCached D clk this q d) \<or>
   cacheGate D F clk this q prov m key call = fetchFresh D F clk this q prov key call"
  by (auto simp: cacheGate_def Let_def split: option.split)

lemma fetchFresh_failure:
  "run_call F c = Inl e \<Longrightarrow>
   fetchFresh D F clk this q prov key c =
     \<lparr>out_state = this, out_write = None, out_calls = [c], out_result = Inl e\<rparr>"
  by (simp add: fetchFresh_def)

lemma fetchFresh_success:
  "run_call F c = Inr d \<Longrightarrow>
   fetchFresh D F clk this q prov key c =
     \<lparr>out_state = this\<lparr>cache := (cache this)(key \<mapsto> \<lparr>entry_data = d, entry_timestamp = t_cache_store clk\<rparr>),
                        lastApiCall := (lastApiCall this)(prov \<mapsto> t_api_call clk)\<rparr>,
      out_write = Some \<lparr>w_provider = prov, w_call_time = t_api_call clk, w_key = key,
                        w_entry = \<lparr>entry_data = d, entry_timestamp = t_cache_store clk\<rparr>\<rparr>,
      out_calls = [c],
      out_result = Inr (formatAsTimeSeries D (t_format clk) d q)\<rparr>"
  by (simp add: fetchFresh_def Let_def apply_write_def)

lemma doRequest_cases:
  "(\<exists>e. doRequest D F jsonData clk this q =
        \<lparr>out_state = this, out_write = None, out_calls = [], out_result = Inl e\<rparr>) \<or>
   (\<exists>d. doRequest D F jsonData clk this q = serveCached D clk this q d) \<or>
   (\<exists>prov key c. doRequest D F jsonData clk this q = fetchFresh D F clk this q prov key c)"
proof (cases "resolveLocation jsonData q")
  case (Inl e)
  then show ?thesis by (simp add: doRequest_unresolved)
next
  case (Inr loc)
  then obtain key where "requestKey D jsonData q = Some key"
    by (cases loc) (auto simp: requestKey_def)
  from doRequest_gate [OF this] obtain call where
    "doRequest D F jsonData clk this q =
       cacheGate D F clk this q (requestProvider jsonData) (requestMetric q) key call"
    by blast
  note gate = this
  from cacheGate_cases [of D F clk this q "requestProvider jsonData" "requestMetric q" key call]
  show ?thesis
  proof
    assume "\<exists>d. cacheGate D F clk this q (requestProvider jsonData) (requestMetric q) key call =
              serveCached D clk this q d"
    with gate show ?thesis by simp
  next
    assume "cacheGate D F clk this q (requestProvider jsonData) (requestMetric q) key call =
              fetchFresh D F clk this q (requestProvider jsonData) key call"
    with gate have "doRequest D F jsonData clk this q =
              fetchFresh D F clk this q (requestProvider jsonData) key call"
      by simp
    then show ?thesis by blast
  qed
qed

lemma fetchFresh_calls: "out_calls (fetchFresh D F clk this q prov key c) = [c]"
  by (cases "run_call F c") (simp_all add: fetchFresh_def Let_def)

lemma example_provider: "requestProvider example_config = ''forecast.solar''"
  by (simp add: requestProvider_def example_config_def str_or_def)

lemma example_metric: "requestMetric example_query = ''watts''"
  by (simp add: requestMetric_def example_query_def str_or_def)

lemma example_location:
  "resolveLocation example_config example_query = Inr (5113 / 100, 1042 / 100, 30, 180, 5)"
  by (simp add: resolveLocation_def example_query_def str_or_def num_or_def)

lemma example_request_key:
  "requestKey example_env example_config example_query = Some example_key"
  by (simp add: requestKey_def example_location example_provider example_metric)
     (simp add: example_query_def example_env_def example_key_def getCacheKey_def
        str_or_def tpl_def show_int_def digit_char_def)

lemma example_doRequest_fetch:
  "doRequest example_env F example_config example_clock empty_state example_query =
     fetchFresh example_env F example_clock empty_state example_query ''forecast.solar''
       example_key
       (ForecastSolarCall (5113 / 100) (1042 / 100) 30 180 5 ''forecast'' ''watts'' None None)"
proof -
  from doRequest_gate [OF example_request_key] obtain call where
    "doRequest example_env F example_config example_clock empty_state example_query =
       cacheGate example_env F example_clock empty_state example_query
         (requestProvider example_config) (requestMetric example_query) example_key call"
    by blast
  have "doRequest example_env F example_config example_clock empty_state example_query =
     cacheGate example_env F example_clock empty_state example_query ''forecast.solar'' ''watts''
       (getCacheKey example_env ''forecast.solar'' (5113 / 100) (1042 / 100) 30 180 5 None
          ''forecast'' ''watts'' None None None)
       (requestCall ''forecast.solar'' (5113 / 100) (1042 / 100) 30 180 5 None
          ''forecast'' ''watts'' None None)"
    by (simp add: doRequest_def example_location Let_def)
       (simp add: example_query_def example_config_def str_or_def)
  then show ?thesis
    by (simp add: cacheGate_def empty_state_def requestCall_def)
       (simp add: example_env_def example_key_def getCacheKey_def tpl_def show_int_def
          digit_char_def)
qed

text \<open>
  C1. When the cache holds an entry for the key of the request and the age of the entry at
  the cache check is below the effective TTL, the request is answered from that entry's
  data, unchanged: no fetcher is invoked and neither map is written. The effective TTL is
  30 minutes for the provider \<^verbatim>\<open>solcast\<close>, 30 minutes for the metric \<^verbatim>\<open>watt_hours_day\<close> of
  any other provider, and 10 minutes for every other metric of any other provider.
\<close>

theorem cache_hit_within_ttl:
  assumes "requestKey D jsonData q = Some key"
      and "cache this key = Some e"
      and "t_cache_check clk - entry_timestamp e
             < getEffectiveCacheTTL (requestProvider jsonData) (requestMetric q)"
  shows "doRequest D F jsonData clk this q =
           \<lparr>out_state = this, out_write = None, out_calls = [],
            out_result = Inr (formatAsTimeSeries D (t_format clk) (entry_data e) q)\<rparr> \<and>
         getEffectiveCacheTTL ''solcast'' m = 30 * 60 * 1000 \<and>
         (prov \<noteq> ''solcast'' \<longrightarrow> getEffectiveCacheTTL prov ''watt_hours_day'' = 30 * 60 * 1000) \<and>
         (prov \<noteq> ''solcast'' \<and> m \<noteq> ''watt_hours_day'' \<longrightarrow>
            getEffectiveCacheTTL prov m = 10 * 60 * 1000)"
proof -
  from doRequest_gate [OF assms(1)] obtain call where
    "doRequest D F jsonData clk this q =
       cacheGate D F clk this q (requestProvider jsonData) (requestMetric q) key call"
    by blast
  with cacheGate_fresh [OF assms(2,3)] show ?thesis
    by (simp add: serveCached_def getEffectiveCacheTTL_def CACHE_TTL_def MIN_CACHE_TTL_def)
qed

theorem cache_hit_within_ttl_witness:
  "requestKey example_env example_config example_query = Some example_key \<and>
   cache fresh_state example_key =
     Some \<lparr>entry_data = example_data, entry_timestamp = 1751799700000\<rparr> \<and>
   t_cache_check example_clock - 1751799700000
     < getEffectiveCacheTTL (requestProvider example_config) (requestMetric example_query) \<and>
   doRequest example_env failing_fetchers example_config example_clock fresh_state example_query =
     \<lparr>out_state = fresh_state, out_write = None, out_calls = [],
      out_result = Inr (formatAsTimeSeries example_env (t_format example_clock) example_data
                          example_query)\<rparr>"
proof -
  let ?e = "\<lparr>entry_data = example_data, entry_timestamp = 1751799700000\<rparr>"
  have h1: "requestKey example_env example_config example_query = Some example_key"
    by (fact example_request_key)
  have h2: "cache fresh_state example_key = Some ?e"
    by (simp add: fresh_state_def)
  have h3: "t_cache_check example_clock - entry_timestamp ?e
              < getEffectiveCacheTTL (requestProvider example_config) (requestMetric example_query)"
    by (simp add: example_clock_def getEffectiveCacheTTL_def example_provider example_metric
          CACHE_TTL_def MIN_CACHE_TTL_def)
  from cache_hit_within_ttl [OF h1 h2 h3, where F = failing_fetchers]
  have "doRequest example_env failing_fetchers example_config example_clock fresh_state
          example_query =
     \<lparr>out_state = fresh_state, out_write = None, out_calls = [],
      out_result = Inr (formatAsTimeSeries example_env (t_format example_clock) example_data
                          example_query)\<rparr>"
    by simp
  with h1 h2 h3 show ?thesis by simp
qed

text \<open>
  C2. When the cache holds an entry for the key of the request, however old, and the time
  since the recorded last call to the provider is below the provider's minimum interval
  (30 minutes for \<^verbatim>\<open>solcast\<close>, 5 minutes for any other provider), the request is answered
  from the existing entry and no fetcher is invoked.
\<close>

theorem rate_limited_serves_stale:
  assumes "requestKey D jsonData q = Some key"
      and "cache this key = Some e"
      and "lastApiCall this (requestProvider jsonData) = Some t0"
      and "t_rate_check clk - t0 < minIntervalBetweenCalls (requestProvider jsonData)"
  shows "doRequest D F jsonData clk this q =
           \<lparr>out_state = this, out_write = None, out_calls = [],
            out_result = Inr (formatAsTimeSeries D (t_format clk) (entry_data e) q)\<rparr> \<and>
         minIntervalBetweenCalls ''solcast'' = 30 * 60 * 1000 \<and>
         (prov \<noteq> ''solcast'' \<longrightarrow> minIntervalBetweenCalls prov = 5 * 60 * 1000)"
proof -
  from doRequest_gate [OF assms(1)] obtain call where
    "doRequest D F jsonData clk this q =
       cacheGate D F clk this q (requestProvider jsonData) (requestMetric q) key call"
    by blast
  with cacheGate_rate_limited [OF assms(2,3,4)] show ?thesis
    by (simp add: serveCached_def minIntervalBetweenCalls_def)
qed

theorem rate_limited_serves_stale_witness:
  "requestKey example_env example_config example_query = Some example_key \<and>
   cache stale_state example_key =
     Some \<lparr>entry_data = example_data, entry_timestamp = 1751797600000\<rparr> \<and>
   \<not> t_cache_check example_clock - 1751797600000
       < getEffectiveCacheTTL (requestProvider example_config) (requestMetric example_query) \<and>
   lastApiCall stale_state (requestProvider example_config) = Some 1751799760000 \<and>
   t_rate_check example_clock - 1751799760000
     < minIntervalBetweenCalls (requestProvider example_config) \<and>
   doRequest example_env failing_fetchers example_config example_clock stale_state example_query =
     \<lparr>out_state = stale_state, out_write = None, out_calls = [],
      out_result = Inr (formatAsTimeSeries example_env (t_format example_clock) example_data
                          example_query)\<rparr>"
proof -
  let ?e = "\<lparr>entry_data = example_data, entry_timestamp = 1751797600000\<rparr>"
  have h1: "requestKey example_env example_config example_query = Some example_key"
    by (fact example_request_key)
  have h2: "cache stale_state example_key = Some ?e"
    by (simp add: stale_state_def)
  have h3: "lastApiCall stale_state (requestProvider example_config) = Some 1751799760000"
    by (simp add: stale_state_def example_provider)
  have h4: "t_rate_check example_clock - 1751799760000
              < minIntervalBetweenCalls (requestProvider example_config)"
    by (simp add: example_clock_def minIntervalBetweenCalls_def example_provider)
  have old: "\<not> t_cache_check example_clock - 1751797600000
       < getEffectiveCacheTTL (requestProvider example_config) (requestMetric example_query)"
    by (simp add: example_clock_def getEffectiveCacheTTL_def example_provider example_metric
          CACHE_TTL_def MIN_CACHE_TTL_def)
  from rate_limited_serves_stale [OF h1 h2 h3 h4, where F = failing_fetchers]
  have "doRequest example_env failing_fetchers example_config example_clock stale_state
          example_query =
     \<lparr>out_state = stale_state, out_write = None, out_calls = [],
      out_result = Inr (formatAsTimeSeries example_env (t_format example_clock) example_data
                          example_query)\<rparr>"
    by simp
  with h1 h2 h3 h4 old show ?thesis by simp
qed

text \<open>
  C3. When a request invokes a fetcher and the fetcher fails, the request fails with the
  fetcher's error and leaves the cache and the rate-gate timestamps as they were; and
  whenever a request changes the state at all, it has invoked a fetcher that succeeded.
\<close>

theorem failed_fetch_leaves_state:
  "(out_calls (doRequest D F jsonData clk this q) = [c] \<and> run_call F c = Inl e \<longrightarrow>
      out_result (doRequest D F jsonData clk this q) = Inl e \<and>
      out_state (doRequest D F jsonData clk this q) = this) \<and>
   (out_state (doRequest D F jsonData clk this q) \<noteq> this \<longrightarrow>
      (\<exists>c d. out_calls (doRequest D F jsonData clk this q) = [c] \<and> run_call F c = Inr d))"
proof -
  consider
    (unresolved) e' where "doRequest D F jsonData clk this q =
        \<lparr>out_state = this, out_write = None, out_calls = [], out_result = Inl e'\<rparr>"
  | (served) d where "doRequest D F jsonData clk this q = serveCached D clk this q d"
  | (fetched) prov key c' where
      "doRequest D F jsonData clk this q = fetchFresh D F clk this q prov key c'"
    using doRequest_cases [of D F jsonData clk this q] by blast
  then show ?thesis
  proof cases
    case unresolved
    then show ?thesis by simp
  next
    case served
    then show ?thesis by (simp add: serveCached_def)
  next
    case fetched
    show ?thesis
    proof (cases "run_call F c'")
      case (Inl e')
      with fetched show ?thesis by (auto simp: fetchFresh_failure)
    next
      case (Inr d)
      with fetched show ?thesis by (auto simp: fetchFresh_success)
    qed
  qed
qed

theorem failed_fetch_leaves_state_witness:
  "out_calls (doRequest example_env failing_fetchers example_config example_clock empty_state
      example_query) =
     [ForecastSolarCall (5113 / 100) (1042 / 100) 30 180 5 ''forecast'' ''watts'' None None] \<and>
   run_call failing_fetchers
     (ForecastSolarCall (5113 / 100) (1042 / 100) 30 180 5 ''forecast'' ''watts'' None None) =
     Inl (Rejected ''429'') \<and>
   out_result (doRequest example_env failing_fetchers example_config example_clock empty_state
      example_query) = Inl (Rejected ''429'') \<and>
   out_state (doRequest example_env failing_fetchers example_config example_clock empty_state
      example_query) = empty_state"
proof -
  let ?c = "ForecastSolarCall (5113 / 100) (1042 / 100) 30 180 5 ''forecast'' ''watts'' None None"
  let ?out = "doRequest example_env failing_fetchers example_config example_clock empty_state
      example_query"
  have run: "run_call failing_fetchers ?c = Inl (Rejected ''429'')"
    by (simp add: failing_fetchers_def)
  have calls: "out_calls ?out = [?c]"
    by (simp add: example_doRequest_fetch fetchFresh_calls)
  from failed_fetch_leaves_state [of example_env failing_fetchers example_config example_clock
      empty_state example_query ?c "Rejected ''429''"] calls run
  have "out_result ?out = Inl (Rejected ''429'') \<and> out_state ?out = empty_state"
    by blast
  with calls run show ?thesis by blast
qed

section \<open>The time-series assembler\<close>

lemma rows_format:
  "rows (formatAsTimeSeries D today allData q) =
     assemble D today (str_or (forecastPeriod q) ''all'') (selectedData allData (requestMetric q))"
  by (simp add: formatAsTimeSeries_def Let_def requestMetric_def)

lemma point_of_eq: "point_of D = (\<lambda>p. (parseTimestamp D (fst p), snd p))"
  by (rule ext) (simp add: point_of_def)

lemma mset_assemble:
  "mset (assemble D today p entries) =
     mset (map (point_of D) (filter (\<lambda>entry. timeFilter D today p (fst entry)) entries))"
  by (simp add: assemble_def point_of_eq case_prod_unfold)

lemma timeFilter_all: "timeFilter D today ''all'' ts"
  by (simp add: timeFilter_def)



lemma example_parse:
  "parseTimestamp example_env ''2025-07-06 11:00:00'' = 1751799600000"
  "parseTimestamp example_env ''2025-07-06 10:00:00'' = 1751796000000"
  "parseTimestamp example_env ''2025-07-07 10:00:00'' = 1751882400000"
  "parseTimestamp example_env ''not a date'' = 0"
  "parseTimestamp example_env ''watts'' = 0"
  by (simp_all add: parseTimestamp_def example_env_def)

lemma example_selection:
  "selectedData example_data ''watts'' =
     [(''2025-07-06 11:00:00'', Num (Finite 700)), (''2025-07-06 10:00:00'', Num (Finite 500)),
      (''2025-07-07 10:00:00'', Num (Finite 9))]"
  by (simp add: selectedData_def example_data_def)

lemma example_rows_all:
  "rows (formatAsTimeSeries example_env today example_data example_query) =
     [(1751796000000, Num (Finite 500)), (1751799600000, Num (Finite 700)), (1751882400000, Num (Finite 9))]"
  by (simp add: rows_format example_metric example_selection)
     (simp add: example_query_def str_or_def assemble_def timeFilter_def example_parse)




lemma in_set_assemble_all:
  "(ts, v) \<in> set entries \<Longrightarrow> (parseTimestamp D ts, v) \<in> set (assemble D today ''all'' entries)"
proof -
  assume "(ts, v) \<in> set entries"
  then have "point_of D (ts, v) \<in># mset (assemble D today ''all'' entries)"
    by (simp add: mset_assemble timeFilter_all)
  then show ?thesis by (simp add: point_of_def)
qed

lemma selectedData_present:
  "map_of allData m = Some s \<Longrightarrow> selectedData allData m = map (\<lambda>(k, v). (k, Num v)) s"
  by (simp add: selectedData_def)

text \<open>
  C7. A key that does not parse is normalized to 0, and with the period \<^verbatim>\<open>all\<close> the point
  of such a key of the selected metric is among the rows of the frame, at time 0: the
  assembler tests the normalized time for \<^verbatim>\<open>NaN\<close>, which the normalizer has already
  replaced by 0, so the point is not skipped.
\<close>

theorem unparseable_point_emitted:
  assumes "date_parse D ts = None"
      and "map_of allData (requestMetric q) = Some s"
      and "(ts, v) \<in> set s"
      and "str_or (forecastPeriod q) ''all'' = ''all''"
  shows "parseTimestamp D ts = 0 \<and>
         (0, Num v) \<in> set (rows (formatAsTimeSeries D today allData q))"
proof -
  from assms(1) have zero: "parseTimestamp D ts = 0"
    by (simp add: parseTimestamp_def)
  from assms(3) have "(ts, Num v) \<in> set (selectedData allData (requestMetric q))"
    by (force simp: selectedData_present [OF assms(2)])
  from in_set_assemble_all [OF this, of D today] zero assms(4) show ?thesis
    by (simp add: rows_format)
qed

theorem unparseable_point_emitted_witness:
  "date_parse example_env ''not a date'' = None \<and>
   map_of unparseable_data (requestMetric example_query) = Some [(''not a date'', Finite 5)] \<and>
   str_or (forecastPeriod example_query) ''all'' = ''all'' \<and>
   parseTimestamp example_env ''not a date'' = 0 \<and>
   (0, Num (Finite 5)) \<in> set (rows (formatAsTimeSeries example_env 1751800000902 unparseable_data
                             example_query))"
proof -
  have h1: "date_parse example_env ''not a date'' = None"
    by (simp add: example_env_def)
  have h2: "map_of unparseable_data (requestMetric example_query) = Some [(''not a date'', Finite 5)]"
    by (simp add: unparseable_data_def example_metric)
  have h3: "(''not a date'', Finite 5) \<in> set [(''not a date'', Finite 5)]"
    by simp
  have h4: "str_or (forecastPeriod example_query) ''all'' = ''all''"
    by (simp add: example_query_def str_or_def)
  from unparseable_point_emitted [OF h1 h2 h3 h4, of 1751800000902] h1 h2 h4
  show ?thesis by simp
qed

lemma selectedData_absent:
  "map_of allData m = None \<Longrightarrow> m \<notin> set Object_prototype_properties \<Longrightarrow>
   selectedData allData m = map (\<lambda>(k, s). (k, Obj s)) allData"
  by (simp add: selectedData_def)

lemma selectedData_inherited:
  "map_of allData m = None \<Longrightarrow> m \<in> set Object_prototype_properties \<Longrightarrow>
   selectedData allData m = []"
  by (simp add: selectedData_def)

lemma assemble_Nil: "assemble D today p [] = []"
  by (simp add: assemble_def)

lemma not_inherited_watt_hours: "''watt_hours'' \<notin> set Object_prototype_properties"
  by (simp add: Object_prototype_properties_def)

lemma inherited_constructor: "''constructor'' \<in> set Object_prototype_properties"
  by (simp add: Object_prototype_properties_def)

text \<open>
  C10. When the canonical result has no entry for the requested metric, no error is raised
  and the selection is not an empty map in general: for a metric that is not the name of a
  property every object inherits, the assembler takes the canonical result itself as the
  selection, and its entries, keyed by metric name, pass through the same period filter and
  sort; for a metric that names an inherited property (\<^verbatim>\<open>constructor\<close>, \<^verbatim>\<open>toString\<close>, ...)
  the inherited value is selected, which has no entries, and the frame has no rows. The
  frame has no rows either when the canonical result has no entries.
\<close>

theorem absent_metric_selects_whole_result:
  assumes "map_of allData (requestMetric q) = None"
  shows "(requestMetric q \<notin> set Object_prototype_properties \<longrightarrow>
            rows (formatAsTimeSeries D today allData q) =
              assemble D today (str_or (forecastPeriod q) ''all'')
                (map (\<lambda>(k, s). (k, Obj s)) allData)) \<and>
         (requestMetric q \<in> set Object_prototype_properties \<longrightarrow>
            rows (formatAsTimeSeries D today allData q) = []) \<and>
         (allData = [] \<longrightarrow> rows (formatAsTimeSeries D today allData q) = [])"
proof (intro conjI impI)
  assume "requestMetric q \<notin> set Object_prototype_properties"
  with assms show "rows (formatAsTimeSeries D today allData q) =
      assemble D today (str_or (forecastPeriod q) ''all'') (map (\<lambda>(k, s). (k, Obj s)) allData)"
    by (simp add: rows_format selectedData_absent)
next
  assume "requestMetric q \<in> set Object_prototype_properties"
  with assms show "rows (formatAsTimeSeries D today allData q) = []"
    by (simp add: rows_format selectedData_inherited assemble_Nil)
next
  assume "allData = []"
  then have "selectedData allData (requestMetric q) = []"
    by (simp add: selectedData_def)
  then show "rows (formatAsTimeSeries D today allData q) = []"
    by (simp add: rows_format assemble_Nil)
qed

theorem absent_metric_selects_whole_result_witness:
  "map_of example_data (requestMetric (example_query\<lparr>metric := Some ''watt_hours''\<rparr>)) = None \<and>
   requestMetric (example_query\<lparr>metric := Some ''watt_hours''\<rparr>)
     \<notin> set Object_prototype_properties \<and>
   rows (formatAsTimeSeries example_env 1751800000902 example_data
           (example_query\<lparr>metric := Some ''watt_hours''\<rparr>)) =
     assemble example_env 1751800000902 ''all'' (map (\<lambda>(k, s). (k, Obj s)) example_data) \<and>
   map_of example_data (requestMetric (example_query\<lparr>metric := Some ''constructor''\<rparr>)) = None \<and>
   requestMetric (example_query\<lparr>metric := Some ''constructor''\<rparr>)
     \<in> set Object_prototype_properties \<and>
   rows (formatAsTimeSeries example_env 1751800000902 example_data
           (example_query\<lparr>metric := Some ''constructor''\<rparr>)) = []"
proof -
  let ?q = "example_query\<lparr>metric := Some ''watt_hours''\<rparr>"
  let ?c = "example_query\<lparr>metric := Some ''constructor''\<rparr>"
  have mq: "requestMetric ?q = ''watt_hours''" and mc: "requestMetric ?c = ''constructor''"
    by (simp_all add: requestMetric_def str_or_def)
  have h: "map_of example_data (requestMetric ?q) = None"
    unfolding mq by (simp add: example_data_def)
  have n: "requestMetric ?q \<notin> set Object_prototype_properties"
    unfolding mq by (rule not_inherited_watt_hours)
  have p: "str_or (forecastPeriod ?q) ''all'' = ''all''"
    by (simp add: example_query_def str_or_def)
  have h': "map_of example_data (requestMetric ?c) = None"
    unfolding mc by (simp add: example_data_def)
  have i: "requestMetric ?c \<in> set Object_prototype_properties"
    unfolding mc by (rule inherited_constructor)
  from absent_metric_selects_whole_result [OF h, of example_env 1751800000902] n p
  have whole: "rows (formatAsTimeSeries example_env 1751800000902 example_data ?q) =
     assemble example_env 1751800000902 ''all'' (map (\<lambda>(k, s). (k, Obj s)) example_data)"
    by simp
  from absent_metric_selects_whole_result [OF h', of example_env 1751800000902] i
  have none: "rows (formatAsTimeSeries example_env 1751800000902 example_data ?c) = []"
    by simp
  from h n whole h' i none show ?thesis by simp
qed

text \<open>The selection for an absent metric is not empty: with the period \<^verbatim>\<open>all\<close> the one
  entry of the canonical result becomes a row.\<close>

theorem absent_metric_counterexample:
  "map_of example_data ''watt_hours'' = None \<and>
   rows (formatAsTimeSeries example_env 1751800000902 example_data
           (example_query\<lparr>metric := Some ''watt_hours''\<rparr>)) =
     [(0, Obj [(''2025-07-06 11:00:00'', Finite 700), (''2025-07-06 10:00:00'', Finite 500),
               (''2025-07-07 10:00:00'', Finite 9)])]"
proof -
  have m: "requestMetric (example_query\<lparr>metric := Some ''watt_hours''\<rparr>) = ''watt_hours''"
    by (simp add: requestMetric_def str_or_def)
  have a: "map_of example_data ''watt_hours'' = None"
    by (simp add: example_data_def)
  show ?thesis
    by (simp add: a rows_format m selectedData_absent [OF a not_inherited_watt_hours])
       (simp add: example_data_def example_query_def str_or_def assemble_def timeFilter_def
          example_parse)
qed

lemma sorted_assemble: "sorted (map fst (assemble D today p entries))"
proof -
  have "map fst (assemble D today p entries) =
          map (\<lambda>(ts, v). parseTimestamp D ts)
            (sort_key (\<lambda>(ts, v). parseTimestamp D ts)
               (filter (\<lambda>(ts, v). timeFilter D today p ts) entries))"
    by (simp add: assemble_def case_prod_unfold comp_def)
  then show ?thesis by (simp only: sorted_sort_key)
qed

text \<open>
  C6. Whatever the order of the entries of the selected map, the rows of the frame are in
  ascending order of time: each row's time is at most the time of the row after it.
\<close>

theorem rows_sorted_by_time:
  "Suc i < length (rows (formatAsTimeSeries D today allData q)) \<Longrightarrow>
   fst (rows (formatAsTimeSeries D today allData q) ! i)
     \<le> fst (rows (formatAsTimeSeries D today allData q) ! Suc i)"
proof -
  assume len: "Suc i < length (rows (formatAsTimeSeries D today allData q))"
  let ?rs = "rows (formatAsTimeSeries D today allData q)"
  have "sorted (map fst ?rs)" by (simp add: rows_format sorted_assemble)
  then have "map fst ?rs ! i \<le> map fst ?rs ! Suc i"
    using len by (simp add: sorted_iff_nth_Suc)
  with len show ?thesis by simp
qed

theorem rows_sorted_by_time_witness:
  "Suc 0 < length (rows (formatAsTimeSeries example_env 1751800000902 example_data example_query)) \<and>
   rows (formatAsTimeSeries example_env 1751800000902 example_data example_query) =
     [(1751796000000, Num (Finite 500)), (1751799600000, Num (Finite 700)), (1751882400000, Num (Finite 9))] \<and>
   fst (rows (formatAsTimeSeries example_env 1751800000902 example_data example_query) ! 0)
     \<le> fst (rows (formatAsTimeSeries example_env 1751800000902 example_data example_query) ! Suc 0)"
proof -
  have len: "Suc 0 < length (rows (formatAsTimeSeries example_env 1751800000902 example_data
      example_query))"
    by (simp add: example_rows_all)
  from rows_sorted_by_time [OF len] len show ?thesis
    by (simp add: example_rows_all)
qed

section \<open>The batch entry point, verified\<close>

lemma first_rejection_member:
  "first_rejection order rs = Some e \<Longrightarrow> Inl e \<in> set rs"
proof (induction order)
  case Nil
  then show ?case by simp
next
  case (Cons i order)
  show ?case
  proof (cases "i < length rs")
    case False
    with Cons show ?thesis by simp
  next
    case True
    show ?thesis
    proof (cases "rs ! i")
      case (Inl e')
      with True Cons.prems have "e' = e" by simp
      with Inl True show ?thesis by (metis nth_mem)
    next
      case (Inr v)
      with True Cons show ?thesis by simp
    qed
  qed
qed

lemma first_rejection_none:
  "first_rejection order rs = None \<Longrightarrow> i \<in> set order \<Longrightarrow> i < length rs \<Longrightarrow>
   \<exists>v. rs ! i = Inr v"
  by (induction order) (auto split: if_splits sum.splits)

lemma set_settle_order: "set (settle_order settle n) = {i. i < n}"
  by (auto simp: settle_order_def)

lemma fulfilled_all:
  "\<forall>r \<in> set rs. \<exists>v. r = Inr v \<Longrightarrow> map Inr (fulfilled rs) = rs"
  by (induction rs rule: fulfilled.induct) auto

lemma promise_all_cases:
  "case promise_all (settle_order settle (length rs)) rs of
     Inr vs \<Rightarrow> rs = map Inr vs
   | Inl e \<Rightarrow> Inl e \<in> set rs"
proof (cases "first_rejection (settle_order settle (length rs)) rs")
  case None
  have "\<forall>r \<in> set rs. \<exists>v. r = Inr v"
  proof
    fix r assume "r \<in> set rs"
    then obtain i where i: "i < length rs" "rs ! i = r"
      by (auto simp: in_set_conv_nth)
    with first_rejection_none [OF None, of i] show "\<exists>v. r = Inr v"
      by (simp add: set_settle_order)
  qed
  from fulfilled_all [OF this] None show ?thesis
    by (simp add: promise_all_def)
next
  case (Some e)
  with first_rejection_member [OF Some] show ?thesis
    by (simp add: promise_all_def)
qed

lemma query_response:
  "snd (snd (query D F jsonData settle this targets)) =
     promise_all (settle_order settle (length targets)) (target_results D F jsonData this targets)"
  by (simp add: query_def target_results_def Let_def case_prod_unfold comp_def)

lemma missing_location:
  "resolveLocation example_config (example_query\<lparr>locationId := Some ''loc_x''\<rparr>) =
     Inl (Error ''Location with ID loc_x not found in datasource configuration'')"
  by (simp add: resolveLocation_def example_query_def example_config_def str_or_def tpl_def)

lemma example_sibling_result:
  "out_result (doRequest example_env working_fetchers example_config example_clock empty_state
     example_query) =
   Inr (formatAsTimeSeries example_env (t_format example_clock) example_data example_query)"
proof -
  have "run_call working_fetchers
          (ForecastSolarCall (5113 / 100) (1042 / 100) 30 180 5 ''forecast'' ''watts'' None None)
        = Inr example_data"
    by (simp add: working_fetchers_def)
  then show ?thesis
    by (simp add: example_doRequest_fetch fetchFresh_def Let_def)
qed

lemma example_batch_results:
  "target_results example_env working_fetchers example_config empty_state
     [(example_clock, example_query\<lparr>locationId := Some ''loc_x''\<rparr>),
      (example_clock, example_query)] =
   [Inl (Error ''Location with ID loc_x not found in datasource configuration''),
    Inr (formatAsTimeSeries example_env (t_format example_clock) example_data example_query)]"
  by (simp add: target_results_def example_sibling_result
        doRequest_unresolved [OF missing_location])

lemma settle_order_two: "settle_order [] (Suc (Suc 0)) = [0, Suc 0]"
  by (simp add: settle_order_def)

text \<open>
  C4. The batch fulfils, with one frame per target in target order, only when every
  target resolves; as soon as one target fails, the whole batch is rejected with the error
  of a failing target, and the frames of its siblings are not reported.
\<close>

theorem batch_all_or_nothing:
  "case snd (snd (query D F jsonData settle this targets)) of
     Inr frames \<Rightarrow> target_results D F jsonData this targets = map Inr frames
   | Inl e \<Rightarrow> Inl e \<in> set (target_results D F jsonData this targets)"
  using promise_all_cases [of "target_results D F jsonData this targets" settle]
  by (simp add: query_response target_results_def)


theorem batch_all_or_nothing_witness:
  "snd (snd (query example_env working_fetchers example_config [] empty_state
     [(example_clock, example_query\<lparr>locationId := Some ''loc_x''\<rparr>),
      (example_clock, example_query)])) =
     Inl (Error ''Location with ID loc_x not found in datasource configuration'') \<and>
   Inl (Error ''Location with ID loc_x not found in datasource configuration'')
     \<in> set (target_results example_env working_fetchers example_config empty_state
          [(example_clock, example_query\<lparr>locationId := Some ''loc_x''\<rparr>),
           (example_clock, example_query)])"
proof -
  have r: "snd (snd (query example_env working_fetchers example_config [] empty_state
     [(example_clock, example_query\<lparr>locationId := Some ''loc_x''\<rparr>),
      (example_clock, example_query)])) =
     Inl (Error ''Location with ID loc_x not found in datasource configuration'')"
    by (simp add: query_response example_batch_results settle_order_two promise_all_def)
  from batch_all_or_nothing [where D = example_env and F = working_fetchers
      and jsonData = example_config and settle = "[]" and this = empty_state
      and targets = "[(example_clock, example_query\<lparr>locationId := Some ''loc_x''\<rparr>),
        (example_clock, example_query)]"]
  have "Inl (Error ''Location with ID loc_x not found in datasource configuration'')
     \<in> set (target_results example_env working_fetchers example_config empty_state
          [(example_clock, example_query\<lparr>locationId := Some ''loc_x''\<rparr>),
           (example_clock, example_query)])"
    unfolding r by simp
  with r show ?thesis by simp
qed

text \<open>A batch of a target whose location is not configured and a target that resolves on
  its own: the batch is rejected.\<close>

theorem batch_rejects_as_a_whole_counterexample:
  "out_result (doRequest example_env working_fetchers example_config example_clock empty_state
     example_query) =
     Inr (formatAsTimeSeries example_env (t_format example_clock) example_data example_query) \<and>
   snd (snd (query example_env working_fetchers example_config [] empty_state
     [(example_clock, example_query\<lparr>locationId := Some ''loc_x''\<rparr>),
      (example_clock, example_query)])) =
     Inl (Error ''Location with ID loc_x not found in datasource configuration'')"
  by (simp add: example_sibling_result query_response example_batch_results settle_order_two
        promise_all_def)


section \<open>The query resolver, verified\<close>

text \<open>
  C8. With inline location parameters, each of latitude, longitude, declination, azimuth and
  kwp that is missing is resolved to its fallback (51.13, 10.42, 30, 180, 5), and one that
  is supplied as zero is resolved to the same fallback: a panel lying flat (declination 0)
  is resolved as tilted by 30 degrees.
\<close>

theorem zero_replaced_by_fallback:
  assumes "useCustomLocation q"
      and "resolveLocation jsonData q = Inr (lat, lon, decl, az, k)"
  shows "(latitude q = None \<or> latitude q = Some 0 \<longrightarrow> lat = 5113 / 100) \<and>
         (longitude q = None \<or> longitude q = Some 0 \<longrightarrow> lon = 1042 / 100) \<and>
         (declination q = None \<or> declination q = Some 0 \<longrightarrow> decl = 30) \<and>
         (azimuth q = None \<or> azimuth q = Some 0 \<longrightarrow> az = 180) \<and>
         (kwp q = None \<or> kwp q = Some 0 \<longrightarrow> k = 5)"
  using assms by (auto simp: resolveLocation_def num_or_def)

theorem zero_replaced_by_fallback_witness:
  "useCustomLocation (example_query\<lparr>useCustomLocation := True, latitude := Some 48,
       longitude := Some 11, declination := Some 0, azimuth := Some 180, kwp := Some 5\<rparr>) \<and>
   resolveLocation example_config
     (example_query\<lparr>useCustomLocation := True, latitude := Some 48,
       longitude := Some 11, declination := Some 0, azimuth := Some 180, kwp := Some 5\<rparr>) =
     Inr (48, 11, 30, 180, 5) \<and>
   declination (example_query\<lparr>useCustomLocation := True, latitude := Some 48,
       longitude := Some 11, declination := Some 0, azimuth := Some 180, kwp := Some 5\<rparr>) =
     Some 0"
proof -
  let ?q = "example_query\<lparr>useCustomLocation := True, latitude := Some 48,
       longitude := Some 11, declination := Some 0, azimuth := Some 180, kwp := Some 5\<rparr>"
  have h1: "useCustomLocation ?q" by simp
  have "\<exists>decl. resolveLocation example_config ?q = Inr (48, 11, decl, 180, 5)"
    by (simp add: resolveLocation_def num_or_def)
  then obtain decl where h2: "resolveLocation example_config ?q = Inr (48, 11, decl, 180, 5)"
    by blast
  from zero_replaced_by_fallback [OF h1 h2] have "decl = 30" by simp
  with h1 h2 show ?thesis by simp
qed

section \<open>The alt-provider adapter, verified\<close>






















end
